theory Spec2Isabelle
  imports Complex_Main
begin

section \<open>Numeric values\<close>

text \<open>
  The statement tables are pandas frames of float64 cells, and the calculators combine
  them with numpy scalar arithmetic: a division by zero does not raise, it yields an
  infinity or a NaN. A value is therefore a real number or one of the three IEEE special
  values, and the four operations follow the IEEE rules for them. Rounding, overflow to
  infinity and the sign of zero are abstracted: finite results are exact reals, and a
  zero divisor counts as positive zero.
\<close>

datatype fval = Fin real | PInf | NInf | NaN

fun fneg :: "fval \<Rightarrow> fval" where
  "fneg (Fin a) = Fin (- a)"
| "fneg PInf = NInf"
| "fneg NInf = PInf"
| "fneg NaN = NaN"

fun fabs :: "fval \<Rightarrow> fval" where
  "fabs (Fin a) = Fin \<bar>a\<bar>"
| "fabs PInf = PInf"
| "fabs NInf = PInf"
| "fabs NaN = NaN"

fun fadd :: "fval \<Rightarrow> fval \<Rightarrow> fval" where
  "fadd (Fin a) (Fin b) = Fin (a + b)"
| "fadd (Fin a) PInf = PInf"
| "fadd (Fin a) NInf = NInf"
| "fadd PInf (Fin b) = PInf"
| "fadd NInf (Fin b) = NInf"
| "fadd PInf PInf = PInf"
| "fadd NInf NInf = NInf"
| "fadd PInf NInf = NaN"
| "fadd NInf PInf = NaN"
| "fadd NaN y = NaN"
| "fadd x NaN = NaN"

definition fsub :: "fval \<Rightarrow> fval \<Rightarrow> fval" where
  "fsub x y = fadd x (fneg y)"

fun fmul :: "fval \<Rightarrow> fval \<Rightarrow> fval" where
  "fmul (Fin a) (Fin b) = Fin (a * b)"
| "fmul (Fin a) PInf = (if a = 0 then NaN else if 0 < a then PInf else NInf)"
| "fmul (Fin a) NInf = (if a = 0 then NaN else if 0 < a then NInf else PInf)"
| "fmul PInf (Fin b) = (if b = 0 then NaN else if 0 < b then PInf else NInf)"
| "fmul NInf (Fin b) = (if b = 0 then NaN else if 0 < b then NInf else PInf)"
| "fmul PInf PInf = PInf"
| "fmul NInf NInf = PInf"
| "fmul PInf NInf = NInf"
| "fmul NInf PInf = NInf"
| "fmul NaN y = NaN"
| "fmul x NaN = NaN"

fun fdiv :: "fval \<Rightarrow> fval \<Rightarrow> fval" where
  "fdiv (Fin a) (Fin b) =
     (if b \<noteq> 0 then Fin (a / b)
      else if 0 < a then PInf else if a < 0 then NInf else NaN)"
| "fdiv (Fin a) PInf = Fin 0"
| "fdiv (Fin a) NInf = Fin 0"
| "fdiv PInf (Fin b) = (if 0 \<le> b then PInf else NInf)"
| "fdiv NInf (Fin b) = (if 0 \<le> b then NInf else PInf)"
| "fdiv PInf PInf = NaN"
| "fdiv NInf NInf = NaN"
| "fdiv PInf NInf = NaN"
| "fdiv NInf PInf = NaN"
| "fdiv NaN y = NaN"
| "fdiv x NaN = NaN"


section \<open>Statement tables, results and errors\<close>

text \<open>
  A frame is a pandas DataFrame read with \<open>index_col=0\<close>: the period labels
  (\<open>columns\<close>, most recent first), the row labels (\<open>index\<close>) and the cells.
  Only the cells at a label of \<open>index\<close> and a label of \<open>columns\<close> are read.
\<close>

record frame =
  columns :: "string list"
  index :: "string list"
  cell :: "string \<Rightarrow> string \<Rightarrow> fval"

record store =
  income_stmt :: frame
  balance_sheet :: frame
  cashflow :: frame

datatype py_error = IndexError | KeyError | ZeroDivisionError

text \<open>
  The values of a result dictionary: a number, a string, an integer, the string
  \<open>f"{x}%"\<close> of a number \<open>x\<close> (kept as the number), or a nested dictionary.
  A dictionary is an association list in insertion order.
\<close>

datatype pyval = Num fval | Str string | IntV int | Percent real | Dict "(string \<times> pyval) list"

type_synonym dict = "(string \<times> pyval) list"

text \<open>
  What a call prints: a line of text (an interpolated exception is left as \<open>{e}\<close>),
  or a list of row labels.
\<close>

datatype diag = Print string | PrintRows "string list"

text \<open>The outcome of a call: what it printed, and the exception raised or the value returned.\<close>

type_synonym outcome = "diag list \<times> (py_error + dict)"

text \<open>\<open>df.columns[0]\<close>: IndexError on a frame without columns.\<close>

definition first_column :: "frame \<Rightarrow> py_error + string" where
  "first_column df = (case columns df of [] \<Rightarrow> Inl IndexError | c # _ \<Rightarrow> Inr c)"

text \<open>\<open>df.loc[row, col]\<close>: KeyError when the row label or the column label is missing.\<close>

definition loc :: "frame \<Rightarrow> string \<Rightarrow> string \<Rightarrow> py_error + fval" where
  "loc df r c =
     (if r \<in> set (index df) \<and> c \<in> set (columns df) then Inr (cell df r c)
      else Inl KeyError)"

section \<open>Profitability ratios\<close>

text \<open>The body of the \<open>try\<close> block, with the latest column label already read.\<close>

definition profitability_try :: "store \<Rightarrow> string \<Rightarrow> py_error + dict" where
  "profitability_try s latest =
     (case loc (income_stmt s) ''Total Revenue'' latest of
        Inl e \<Rightarrow> Inl e
      | Inr revenue \<Rightarrow>
     (case loc (income_stmt s) ''Net Income'' latest of
        Inl e \<Rightarrow> Inl e
      | Inr net_income \<Rightarrow>
     (case loc (balance_sheet s) ''Total Assets'' latest of
        Inl e \<Rightarrow> Inl e
      | Inr total_assets \<Rightarrow>
     (case loc (balance_sheet s) ''Stockholders Equity'' latest of
        Inl e \<Rightarrow> Inl e
      | Inr shareholders_equity \<Rightarrow>
          Inr [(''Net Profit Margin (%)'', Num (fmul (fdiv net_income revenue) (Fin 100))),
               (''ROA (Return on Assets %)'', Num (fmul (fdiv net_income total_assets) (Fin 100))),
               (''ROE (Return on Equity %)'',
                  Num (fmul (fdiv net_income shareholders_equity) (Fin 100)))]))))"

definition try_alternative_names :: "store \<Rightarrow> outcome" where
  "try_alternative_names s =
     (case first_column (income_stmt s) of
        Inl e \<Rightarrow> ([], Inl e)
      | Inr latest \<Rightarrow>
          ([Print (CHR 0x0A # ''Available Income Statement rows:''),
            PrintRows (take 10 (index (income_stmt s))),
            Print (CHR 0x0A # ''Available Balance Sheet rows:''),
            PrintRows (take 10 (index (balance_sheet s)))],
           Inr []))"

definition calculate_profitability_ratios :: "store \<Rightarrow> outcome" where
  "calculate_profitability_ratios s =
     (case first_column (income_stmt s) of
        Inl e \<Rightarrow> ([], Inl e)
      | Inr latest \<Rightarrow>
         (case profitability_try s latest of
            Inr ratios \<Rightarrow> ([], Inr ratios)
          | Inl KeyError \<Rightarrow>
             (case try_alternative_names s of
                (out, r) \<Rightarrow>
                  (Print ''Warning: Could not find {e}. Check row names in CSV.'' # out, r))
          | Inl e \<Rightarrow> ([], Inl e)))"

section \<open>Leverage ratios\<close>

definition leverage_try :: "store \<Rightarrow> string \<Rightarrow> py_error + dict" where
  "leverage_try s latest =
     (case loc (balance_sheet s) ''Total Debt'' latest of
        Inl e \<Rightarrow> Inl e
      | Inr total_debt \<Rightarrow>
     (case loc (balance_sheet s) ''Stockholders Equity'' latest of
        Inl e \<Rightarrow> Inl e
      | Inr total_equity \<Rightarrow>
     (case loc (balance_sheet s) ''Total Assets'' latest of
        Inl e \<Rightarrow> Inl e
      | Inr total_assets \<Rightarrow>
          Inr [(''Debt-to-Equity'', Num (fdiv total_debt total_equity)),
               (''Debt-to-Assets'', Num (fdiv total_debt total_assets)),
               (''Equity Multiplier'', Num (fdiv total_assets total_equity))])))"

definition calculate_leverage_ratios :: "store \<Rightarrow> outcome" where
  "calculate_leverage_ratios s =
     (case first_column (balance_sheet s) of
        Inl e \<Rightarrow> ([], Inl e)
      | Inr latest \<Rightarrow>
         (case leverage_try s latest of
            Inr ratios \<Rightarrow> ([], Inr ratios)
          | Inl KeyError \<Rightarrow> ([Print ''Warning: Could not find {e}''], Inr [])
          | Inl e \<Rightarrow> ([], Inl e)))"

section \<open>Growth metrics\<close>

definition growth_try :: "store \<Rightarrow> string \<Rightarrow> string \<Rightarrow> py_error + dict" where
  "growth_try s current_year previous_year =
     (case loc (income_stmt s) ''Total Revenue'' current_year of
        Inl e \<Rightarrow> Inl e
      | Inr current_revenue \<Rightarrow>
     (case loc (income_stmt s) ''Total Revenue'' previous_year of
        Inl e \<Rightarrow> Inl e
      | Inr previous_revenue \<Rightarrow>
     (case loc (income_stmt s) ''Net Income'' current_year of
        Inl e \<Rightarrow> Inl e
      | Inr current_ni \<Rightarrow>
     (case loc (income_stmt s) ''Net Income'' previous_year of
        Inl e \<Rightarrow> Inl e
      | Inr previous_ni \<Rightarrow>
          Inr [(''Revenue Growth YoY (%)'',
                  Num (fmul (fdiv (fsub current_revenue previous_revenue) previous_revenue)
                         (Fin 100))),
               (''Net Income Growth YoY (%)'',
                  Num (fmul (fdiv (fsub current_ni previous_ni) previous_ni) (Fin 100)))]))))"

definition calculate_growth_metrics :: "store \<Rightarrow> outcome" where
  "calculate_growth_metrics s =
     (if length (columns (income_stmt s)) < 2
      then ([], Inr [(''Note'', Str ''Insufficient data for growth calculation'')])
      else
        (case columns (income_stmt s) of
           current_year # previous_year # _ \<Rightarrow>
             (case growth_try s current_year previous_year of
                Inr growth \<Rightarrow> ([], Inr growth)
              | Inl KeyError \<Rightarrow> ([], Inr [])
              | Inl e \<Rightarrow> ([], Inl e))
         | _ \<Rightarrow> ([], Inl IndexError)))"

section \<open>Discounted cash flow valuation\<close>

text \<open>
  The rates are finite Python floats and the horizon is a Python integer.
  \<open>x ** n\<close> on the two: a negative exponent of zero raises ZeroDivisionError
  (the OverflowError of a power too large for a float is abstracted, as rounding is).
\<close>

definition py_pow :: "real \<Rightarrow> int \<Rightarrow> py_error + real" where
  "py_pow x n =
     (if 0 \<le> n then Inr (x ^ nat n)
      else if x = 0 then Inl ZeroDivisionError
      else Inr (1 / x ^ nat (- n)))"

text \<open>
  The base-year free cash flow: \<open>Inr (Some fcf)\<close>, or \<open>Inr None\<close> on the
  branch that prints that no cash flow data was found and returns the empty dictionary.
\<close>

definition base_fcf :: "frame \<Rightarrow> py_error + fval option" where
  "base_fcf cf =
     (case first_column cf of
        Inl e \<Rightarrow> Inl e
      | Inr latest \<Rightarrow>
         (if ''Free Cash Flow'' \<in> set (index cf) then
            (case loc cf ''Free Cash Flow'' latest of
               Inl e \<Rightarrow> Inl e
             | Inr fcf \<Rightarrow> Inr (Some fcf))
          else if ''Operating Cash Flow'' \<in> set (index cf) then
            (case loc cf ''Operating Cash Flow'' latest of
               Inl e \<Rightarrow> Inl e
             | Inr ocf \<Rightarrow>
                (case (if ''Capital Expenditure'' \<in> set (index cf)
                       then (case loc cf ''Capital Expenditure'' latest of
                               Inl e \<Rightarrow> Inl e
                             | Inr v \<Rightarrow> Inr (fabs v))
                       else Inr (Fin 0)) of
                   Inl e \<Rightarrow> Inl e
                 | Inr capex \<Rightarrow> Inr (Some (fsub ocf capex))))
          else Inr None))"

text \<open>The projection loop over \<open>range(1, years + 1)\<close>: the list of present values.\<close>

fun project :: "fval \<Rightarrow> real \<Rightarrow> real \<Rightarrow> int list \<Rightarrow> py_error + fval list" where
  "project fcf growth_rate discount_rate [] = Inr []"
| "project fcf growth_rate discount_rate (year # rest) =
     (case py_pow (1 + growth_rate) year of
        Inl e \<Rightarrow> Inl e
      | Inr gp \<Rightarrow>
     (case py_pow (1 + discount_rate) year of
        Inl e \<Rightarrow> Inl e
      | Inr dp \<Rightarrow>
     (case project fcf growth_rate discount_rate rest of
        Inl e \<Rightarrow> Inl e
      | Inr pvs \<Rightarrow> Inr (fdiv (fmul fcf (Fin gp)) (Fin dp) # pvs))))"

text \<open>Python's \<open>sum\<close>: from 0, left to right.\<close>

definition py_sum :: "fval list \<Rightarrow> fval" where
  "py_sum xs = foldl fadd (Fin 0) xs"

text \<open>The valuation from the base free cash flow on (projection, terminal value, result).\<close>

definition dcf_from_fcf :: "fval \<Rightarrow> real \<Rightarrow> real \<Rightarrow> int \<Rightarrow> py_error + dict" where
  "dcf_from_fcf fcf growth_rate discount_rate years =
     (case project fcf growth_rate discount_rate [1..years] of
        Inl e \<Rightarrow> Inl e
      | Inr projected_fcf \<Rightarrow>
     (case py_pow (1 + growth_rate) years of
        Inl e \<Rightarrow> Inl e
      | Inr gp \<Rightarrow>
         (let terminal_fcf = fmul (fmul fcf (Fin gp)) (Fin (1 + growth_rate));
              terminal_value = fdiv terminal_fcf (Fin (discount_rate - growth_rate))
          in (case py_pow (1 + discount_rate) years of
                Inl e \<Rightarrow> Inl e
              | Inr dp \<Rightarrow>
                 (let pv_terminal = fdiv terminal_value (Fin dp);
                      enterprise_value = fadd (py_sum projected_fcf) pv_terminal
                  in Inr [(''Enterprise Value'', Num enterprise_value),
                          (''Current FCF'', Num fcf),
                          (''Projected FCF (PV)'', Num (py_sum projected_fcf)),
                          (''Terminal Value (PV)'', Num pv_terminal),
                          (''Assumptions'',
                             Dict [(''Growth Rate'', Percent (growth_rate * 100)),
                                   (''Discount Rate'', Percent (discount_rate * 100)),
                                   (''Years'', IntV years)])])))))"

definition dcf_try :: "store \<Rightarrow> real \<Rightarrow> real \<Rightarrow> int \<Rightarrow> outcome" where
  "dcf_try s growth_rate discount_rate years =
     (case base_fcf (cashflow s) of
        Inl e \<Rightarrow> ([], Inl e)
      | Inr None \<Rightarrow> ([Print ''Cannot find cash flow data''], Inr [])
      | Inr (Some fcf) \<Rightarrow> ([], dcf_from_fcf fcf growth_rate discount_rate years))"

definition simple_dcf_valuation :: "store \<Rightarrow> real \<Rightarrow> real \<Rightarrow> int \<Rightarrow> outcome" where
  "simple_dcf_valuation s growth_rate discount_rate years =
     (case dcf_try s growth_rate discount_rate years of
        (out, Inl KeyError) \<Rightarrow>
          (out @ [Print ''Could not perform DCF: {e}'',
                  Print (CHR 0x0A # ''Available Cash Flow rows:''),
                  PrintRows (take 10 (index (cashflow s)))],
           Inr [])
      | (out, r) \<Rightarrow> (out, r))"

section \<open>Reading a result, and the specification's closed form\<close>






section \<open>Concrete stores\<close>

text \<open>The two concrete scenarios of the specification (section 8), in one store.\<close>

definition scenario_income :: frame where
  "scenario_income =
     \<lparr>columns = [''2024'', ''2023''],
      index = [''Total Revenue'', ''Net Income''],
      cell = (\<lambda>r c. if r = ''Total Revenue'' then (if c = ''2024'' then Fin 100 else Fin 80)
                    else (if c = ''2024'' then Fin 20 else Fin 10))\<rparr>"

definition scenario_balance :: frame where
  "scenario_balance =
     \<lparr>columns = [''2024''],
      index = [''Total Assets'', ''Stockholders Equity'', ''Total Debt''],
      cell = (\<lambda>r c. if r = ''Total Assets'' then Fin 200
                    else if r = ''Stockholders Equity'' then Fin 100 else Fin 50)\<rparr>"

definition scenario_cashflow :: frame where
  "scenario_cashflow =
     \<lparr>columns = [''2024''],
      index = [''Operating Cash Flow'', ''Capital Expenditure''],
      cell = (\<lambda>r c. if r = ''Operating Cash Flow'' then Fin 150 else Fin (- 30))\<rparr>"

definition scenario_store :: store where
  "scenario_store =
     \<lparr>income_stmt = scenario_income, balance_sheet = scenario_balance,
      cashflow = scenario_cashflow\<rparr>"

text \<open>The same store with the balance sheet's only period under another label.\<close>

definition shifted_store :: store where
  "shifted_store = scenario_store\<lparr>balance_sheet := scenario_balance\<lparr>columns := [''FY2024'']\<rparr>\<rparr>"

text \<open>The same store without the row of the stockholders' equity.\<close>

definition no_equity_store :: store where
  "no_equity_store =
     scenario_store\<lparr>balance_sheet := scenario_balance\<lparr>index := [''Total Assets'', ''Total Debt'']\<rparr>\<rparr>"

text \<open>The same store with a single period in the income statement.\<close>

definition one_period_store :: store where
  "one_period_store = scenario_store\<lparr>income_stmt := scenario_income\<lparr>columns := [''2024'']\<rparr>\<rparr>"

text \<open>A store of three frames without rows and without periods.\<close>

definition empty_frame :: frame where
  "empty_frame = \<lparr>columns = [], index = [], cell = (\<lambda>r c. NaN)\<rparr>"

definition empty_store :: store where
  "empty_store = \<lparr>income_stmt = empty_frame, balance_sheet = empty_frame, cashflow = empty_frame\<rparr>"




section \<open>Profitability, leverage and growth\<close>

text \<open>
  C7. For the concrete store of the specification (income statement 2024: revenue 100,
  net income 20; 2023: revenue 80, net income 10; balance sheet 2024: total assets 200,
  stockholders' equity 100, total debt 50) the calculators return a net profit margin
  of 20, a return on assets of 10, a return on equity of 20, a debt-to-equity of 0.5
  (debt-to-assets 0.25, equity multiplier 2), a revenue growth of 25 and a net income
  growth of 100, and print nothing.
\<close>

theorem scenario_ratios:
  "calculate_profitability_ratios scenario_store =
     ([], Inr [(''Net Profit Margin (%)'', Num (Fin 20)),
               (''ROA (Return on Assets %)'', Num (Fin 10)),
               (''ROE (Return on Equity %)'', Num (Fin 20))])
   \<and> calculate_leverage_ratios scenario_store =
     ([], Inr [(''Debt-to-Equity'', Num (Fin (1 / 2))),
               (''Debt-to-Assets'', Num (Fin (1 / 4))),
               (''Equity Multiplier'', Num (Fin 2))])
   \<and> calculate_growth_metrics scenario_store =
     ([], Inr [(''Revenue Growth YoY (%)'', Num (Fin 25)),
               (''Net Income Growth YoY (%)'', Num (Fin 100))])"
  by (simp add: calculate_profitability_ratios_def profitability_try_def
      calculate_leverage_ratios_def leverage_try_def calculate_growth_metrics_def growth_try_def
      first_column_def loc_def fsub_def scenario_store_def scenario_income_def scenario_balance_def)

text \<open>
  C8. For every income statement with fewer than two period columns, zero included,
  \<open>calculate_growth_metrics\<close> returns the single entry \<open>Note\<close> with the
  text of the placeholder: it returns, and raises nothing.
\<close>

theorem growth_insufficient_history:
  assumes "length (columns (income_stmt s)) < 2"
  shows "calculate_growth_metrics s =
           ([], Inr [(''Note'', Str ''Insufficient data for growth calculation'')])"
  using assms by (simp add: calculate_growth_metrics_def)

theorem growth_insufficient_history_witness:
  "length (columns (income_stmt one_period_store)) < 2
   \<and> calculate_growth_metrics one_period_store =
       ([], Inr [(''Note'', Str ''Insufficient data for growth calculation'')])
   \<and> length (columns (income_stmt empty_store)) < 2
   \<and> calculate_growth_metrics empty_store =
       ([], Inr [(''Note'', Str ''Insufficient data for growth calculation'')])"
proof -
  have a: "length (columns (income_stmt one_period_store)) < 2"
    by (simp add: one_period_store_def scenario_store_def scenario_income_def)
  have b: "length (columns (income_stmt empty_store)) < 2"
    by (simp add: empty_store_def empty_frame_def)
  show ?thesis
    using a b growth_insufficient_history [OF a] growth_insufficient_history [OF b] by simp
qed

text \<open>
  C9. On a table without period columns the calculators raise IndexError, which their
  handlers for KeyError do not catch: \<open>calculate_profitability_ratios\<close> when the income
  statement has no column, \<open>simple_dcf_valuation\<close> when the cash flow statement has
  none. Neither returns the empty dictionary, and nothing is printed.
\<close>

theorem zero_periods_raise:
  "(columns (income_stmt s) = [] \<longrightarrow> calculate_profitability_ratios s = ([], Inl IndexError))
   \<and> (columns (cashflow s) = [] \<longrightarrow>
        simple_dcf_valuation s growth_rate discount_rate years = ([], Inl IndexError))"
  by (simp add: calculate_profitability_ratios_def simple_dcf_valuation_def dcf_try_def
      base_fcf_def first_column_def)

theorem zero_periods_raise_witness:
  "columns (income_stmt empty_store) = [] \<and> columns (cashflow empty_store) = []
   \<and> calculate_profitability_ratios empty_store = ([], Inl IndexError)
   \<and> simple_dcf_valuation empty_store (5 / 100) (10 / 100) 5 = ([], Inl IndexError)"
proof -
  have a: "columns (income_stmt empty_store) = []" and b: "columns (cashflow empty_store) = []"
    by (simp_all add: empty_store_def empty_frame_def)
  show ?thesis
    using a b zero_periods_raise [of empty_store "5 / 100" "10 / 100" 5] by simp
qed

text \<open>
  C10. \<open>calculate_profitability_ratios\<close> reads the balance sheet under the latest
  column label of the income statement: whenever the columns of the balance sheet do not
  contain that label, the result is the empty dictionary, whatever rows the two
  statements have.
\<close>

theorem profitability_foreign_label_empty:
  assumes "columns (income_stmt s) = latest # rest"
    and "latest \<notin> set (columns (balance_sheet s))"
  shows "snd (calculate_profitability_ratios s) = Inr []"
  using assms
  by (simp add: calculate_profitability_ratios_def profitability_try_def first_column_def
      try_alternative_names_def loc_def)

text \<open>
  The witness: all four items are present, the two of the balance sheet in its own
  latest period \<open>FY2024\<close>.
\<close>

theorem profitability_foreign_label_empty_witness:
  "columns (income_stmt shifted_store) = ''2024'' # [''2023'']
   \<and> ''2024'' \<notin> set (columns (balance_sheet shifted_store))
   \<and> loc (income_stmt shifted_store) ''Total Revenue'' ''2024'' = Inr (Fin 100)
   \<and> loc (income_stmt shifted_store) ''Net Income'' ''2024'' = Inr (Fin 20)
   \<and> loc (balance_sheet shifted_store) ''Total Assets'' ''FY2024'' = Inr (Fin 200)
   \<and> loc (balance_sheet shifted_store) ''Stockholders Equity'' ''FY2024'' = Inr (Fin 100)
   \<and> snd (calculate_profitability_ratios shifted_store) = Inr []"
proof -
  have a: "columns (income_stmt shifted_store) = ''2024'' # [''2023'']"
    by (simp add: shifted_store_def scenario_store_def scenario_income_def)
  have b: "''2024'' \<notin> set (columns (balance_sheet shifted_store))"
    by (simp add: shifted_store_def scenario_store_def scenario_balance_def)
  have c: "loc (income_stmt shifted_store) ''Total Revenue'' ''2024'' = Inr (Fin 100)
           \<and> loc (income_stmt shifted_store) ''Net Income'' ''2024'' = Inr (Fin 20)
           \<and> loc (balance_sheet shifted_store) ''Total Assets'' ''FY2024'' = Inr (Fin 200)
           \<and> loc (balance_sheet shifted_store) ''Stockholders Equity'' ''FY2024'' = Inr (Fin 100)"
    by (simp add: loc_def shifted_store_def scenario_store_def scenario_income_def
        scenario_balance_def)
  show ?thesis
    using a b c profitability_foreign_label_empty [OF a b] by simp
qed

text \<open>
  C3. When the income statement has a latest period and one of the four items is absent
  (Total Revenue or Net Income from the rows of the income statement, Total Assets or
  Stockholders Equity from the rows of the balance sheet),
  \<open>calculate_profitability_ratios\<close> returns the empty dictionary: never a dictionary of
  the ratios whose inputs were present.
\<close>

theorem profitability_missing_item_empty:
  assumes "columns (income_stmt s) \<noteq> []"
    and "''Total Revenue'' \<notin> set (index (income_stmt s))
         \<or> ''Net Income'' \<notin> set (index (income_stmt s))
         \<or> ''Total Assets'' \<notin> set (index (balance_sheet s))
         \<or> ''Stockholders Equity'' \<notin> set (index (balance_sheet s))"
  shows "snd (calculate_profitability_ratios s) = Inr []"
proof -
  from assms(1) obtain latest rest where c: "columns (income_stmt s) = latest # rest"
    by (cases "columns (income_stmt s)") auto
  have "profitability_try s latest = Inl KeyError"
    using assms(2) by (auto simp: profitability_try_def loc_def)
  then show ?thesis
    using c by (simp add: calculate_profitability_ratios_def first_column_def
        try_alternative_names_def)
qed

theorem profitability_missing_item_empty_witness:
  "columns (income_stmt no_equity_store) \<noteq> []
   \<and> ''Total Revenue'' \<in> set (index (income_stmt no_equity_store))
   \<and> ''Net Income'' \<in> set (index (income_stmt no_equity_store))
   \<and> ''Total Assets'' \<in> set (index (balance_sheet no_equity_store))
   \<and> ''Stockholders Equity'' \<notin> set (index (balance_sheet no_equity_store))
   \<and> snd (calculate_profitability_ratios no_equity_store) = Inr []"
proof -
  have a: "columns (income_stmt no_equity_store) \<noteq> []"
    by (simp add: no_equity_store_def scenario_store_def scenario_income_def)
  have b: "''Stockholders Equity'' \<notin> set (index (balance_sheet no_equity_store))"
    by (simp add: no_equity_store_def scenario_store_def)
  have c: "''Total Revenue'' \<in> set (index (income_stmt no_equity_store))
           \<and> ''Net Income'' \<in> set (index (income_stmt no_equity_store))
           \<and> ''Total Assets'' \<in> set (index (balance_sheet no_equity_store))"
    by (simp add: no_equity_store_def scenario_store_def scenario_income_def)
  show ?thesis
    using a b c profitability_missing_item_empty [of no_equity_store] by simp
qed




section \<open>Discounted cash flow valuation: properties\<close>

subsection \<open>The loop and the sum\<close>
















subsection \<open>Finite values: the closed form over the reals\<close>








subsection \<open>The base free cash flow of the concrete stores\<close>




subsection \<open>The enterprise value\<close>



subsection \<open>The base free cash flow\<close>









subsection \<open>Equal rates\<close>









subsection \<open>Monotonicity\<close>




end
